theory Spec2Isabelle
  imports Main "HOL-Library.AList"
begin

text \<open>
  The \<^verbatim>\<open>Interface\<close> class of the Node.js interface for Polyglot Cloud: the
  session between a node server and the MQTT broker. The embedding follows the class
  method by method:
  \<^item> a method is a function from the state of the interface to its next state; a method
    that can raise returns the exception, if any, with the state at the moment it is
    raised;
  \<^item> what the interface does to its collaborators (the logger, the listeners of its
    events, the MQTT client, the device records) is appended to a trace;
  \<^item> the promises, the timers and the microtasks of the JavaScript runtime are part
    of the state; time is the order in which the timers fire;
  \<^item> an inbound payload has the shape the protocol gives it.
\<close>

section \<open>Values, errors and payloads\<close>

text \<open>
  JavaScript values as they travel through the interface: the JSON values of the
  envelopes, plus \<open>Undefined\<close> for a property that is not there. Numbers are
  integers (poll periods, timeouts); objects are association lists in insertion order,
  with one entry for a key.
\<close>

datatype jsval =
    Undefined
  | Null
  | Bool bool
  | Num int
  | Str string
  | Arr "jsval list"
  | Obj "(string \<times> jsval) list"

text \<open>The truthiness test of \<^verbatim>\<open>if (v)\<close>, \<^verbatim>\<open>v ? a : b\<close> and \<^verbatim>\<open>!v\<close>.\<close>

fun truthy :: "jsval \<Rightarrow> bool" where
  "truthy Undefined = False"
| "truthy Null = False"
| "truthy (Bool b) = b"
| "truthy (Num n) = (n \<noteq> 0)"
| "truthy (Str s) = (s \<noteq> [])"
| "truthy (Arr _) = True"
| "truthy (Obj _) = True"

text \<open>
  An \<^verbatim>\<open>Error\<close> object: its \<^verbatim>\<open>name\<close> and its \<^verbatim>\<open>message\<close>.
  \<^verbatim>\<open>new Error(m)\<close> has the name \<^verbatim>\<open>Error\<close>; a failed property
  read or call raises a \<^verbatim>\<open>TypeError\<close>.
\<close>

datatype js_error = JsError (err_name: string) (err_message: string)

definition new_Error :: "string \<Rightarrow> js_error" where
  "new_Error m = JsError ''Error'' m"

definition TypeError :: "string \<Rightarrow> js_error" where
  "TypeError m = JsError ''TypeError'' m"

text \<open>A property value of a device record after the \<^verbatim>\<open>propertyMapper\<close> of
  \<^verbatim>\<open>_onConfig\<close>: the value as received, or the \<^verbatim>\<open>Date\<close> built by
  \<^verbatim>\<open>new Date(parseInt(t, 10))\<close> from the string \<open>t\<close>.\<close>

datatype propval = Raw jsval | DateOfParseInt string

text \<open>
  Modelled from the spec: the Node class (Node.js) is not among the sources. A device
  record holds its address, its primary address, the id of its definition class and its
  name (the constructor arguments \<^verbatim>\<open>new NodeClass(_this, primary, address, n.name)\<close>),
  and the properties \<^verbatim>\<open>_onConfig\<close> assigns to it.
\<close>

record node =
  nd_class :: string
  nd_primary :: string
  nd_address :: string
  nd_name :: string
  nd_props :: "(string \<times> propval) list"

text \<open>One entry \<open>n\<close> of \<^verbatim>\<open>config.nodes\<close>: the three fields the constructor
  call reads, and its other own properties.\<close>

record node_cfg =
  nc_nodedefid :: string
  nc_primary :: string
  nc_name :: string
  nc_props :: "(string \<times> jsval) list"

text \<open>
  A configuration snapshot. \<open>None\<close> is a property that is missing; the custom
  parameters map names to strings, the poll periods are numbers of seconds.
  \<open>cfg_rest\<close> holds the fields the interface only passes on (notices, customData).
\<close>

record config =
  cfg_nodes :: "(string \<times> node_cfg) list"
  cfg_customParams :: "(string \<times> string) list option"
  cfg_shortPoll :: "int option"
  cfg_longPoll :: "int option"
  cfg_newParamsDetected :: "bool option"
  cfg_rest :: "(string \<times> jsval) list"

text \<open>The body of a tracked result (see the sample result message of the source);
  any other value under a result key is \<open>ResOther\<close>, a value without these
  properties.\<close>

record result_body =
  rb_address :: string
  rb_success :: jsval
  rb_reason :: jsval

datatype result_val = ResBody result_body | ResOther jsval

text \<open>The content of a query, status or command message: the address, the request id
  of \<^verbatim>\<open>messageContent.query.requestId\<close> when both properties are there, and
  the content as a whole.\<close>

record node_msg =
  nm_address :: jsval
  nm_requestId :: "jsval option"
  nm_content :: jsval

datatype content =
    CResult "(string \<times> result_val) list"
  | CConfig config
  | CPolls "int option" "int option"
  | CNode node_msg
  | CValue jsval

type_synonym envelope = "(string \<times> content) list"

type_synonym message = "(string \<times> jsval) list"

record queued =
  messageKey :: string
  messageContent :: content
  clientId :: content

section \<open>Observable effects\<close>

datatype level = LInfo | LWarn | LError

datatype payload =
    PNone
  | PEnvelope envelope
  | PMessage message
  | PConfig config bool "(string \<times> node) list"
  | PBool bool
  | PContent content

text \<open>What the interface does to its collaborators, in order: a log line (format
  string and string arguments), an event emitted to the listeners, a publish on the
  MQTT client, the other calls on the MQTT client, and a call of a method of a device
  record (query, status, runCmd, convertDrivers).\<close>

datatype effect =
    Log level string "string list"
  | Emit string payload
  | Publish string message
  | MqttEnd
  | MqttSubscribe string
  | NodeCall string string

section \<open>The interface and the runtime it lives in\<close>

datatype pstate = Pending | Fulfilled jsval | RejectedErr js_error | RejectedVal jsval

text \<open>An entry of \<^verbatim>\<open>_messageAsyncTracking\<close>: the promise, and whether the
  \<^verbatim>\<open>resolve\<close> and \<^verbatim>\<open>reject\<close> callbacks were stored with it.\<close>

record tracker =
  promise :: nat
  callbacks :: bool

text \<open>A call of \<^verbatim>\<open>sendMessageAsync\<close> suspended at its \<^verbatim>\<open>await\<close>:
  the number of the call and its three arguments.\<close>

record cont =
  k_call :: nat
  k_key :: string
  k_message :: message
  k_timeout :: int

datatype timeout_action = DecrementConfigCounter | RejectTimeout nat

datatype poll = Short | Long

record iface =
  \<comment> \<open>fields of the Interface object\<close>
  config :: "config option"
  stage :: string
  userId :: jsval
  profileNum :: string
  ident :: string
  recvTopic :: string
  sendTopic :: string
  mqttClient :: bool
  mqttClientConnected :: bool
  queue :: "queued list"
  messageAsyncTracking :: "(string \<times> tracker) list"
  shuttingDown :: bool
  nodeClasses :: "string list"
  nodes :: "(string \<times> node) list"
  configCounter :: int
  shortPollValue :: "int option"
  longPollValue :: "int option"
  shortPollTimer :: "nat option"
  longPollTimer :: "nat option"
  \<comment> \<open>the JavaScript runtime: promises, timers, suspended calls, pending microtasks\<close>
  promises :: "pstate list"
  calls :: "nat option list"
  awaiting :: "(nat \<times> cont) list"
  microtasks :: "cont list"
  intervals :: "(nat \<times> bool \<times> int option) list"
  timeouts :: "(nat \<times> timeout_action \<times> int) list"
  nextTimer :: nat
  \<comment> \<open>everything done to the collaborators so far\<close>
  trace :: "effect list"

text \<open>
  \<open>mqttClient\<close> tells whether \<^verbatim>\<open>_mqttClient\<close> is the client (after
  \<^verbatim>\<open>start()\<close>) or still \<^verbatim>\<open>null\<close>. \<open>profileNum\<close> and \<open>ident\<close> are
  the strings \<^verbatim>\<open>'' + this._profileNum\<close> and \<^verbatim>\<open>'' + this._id\<close>.
  \<open>nodeClasses\<close> lists the definition ids under which a class was declared.
  \<open>intervals\<close> and \<open>timeouts\<close> are the timers that are armed, by handle, with
  their delay in milliseconds (\<open>None\<close> is the \<^verbatim>\<open>NaN\<close> of
  \<^verbatim>\<open>undefined * 1000\<close>).
\<close>

definition log :: "level \<Rightarrow> string \<Rightarrow> string list \<Rightarrow> iface \<Rightarrow> iface" where
  "log l fmt args s = s\<lparr>trace := trace s @ [Log l fmt args]\<rparr>"

definition emit :: "string \<Rightarrow> payload \<Rightarrow> iface \<Rightarrow> iface" where
  "emit ev p s = s\<lparr>trace := trace s @ [Emit ev p]\<rparr>"

definition effect :: "effect \<Rightarrow> iface \<Rightarrow> iface" where
  "effect e s = s\<lparr>trace := trace s @ [e]\<rparr>"


section \<open>Parameter changes\<close>

text \<open>\<^verbatim>\<open>_setParamsDetected(oldConfig, newConfig)\<close>: the keys of the new custom
  parameters that the old ones do not hold with the same value;
  \<^verbatim>\<open>newParamsDetected\<close> tells whether there is one.\<close>

definition customParams_of :: "config option \<Rightarrow> (string \<times> string) list option" where
  "customParams_of c = (case c of None \<Rightarrow> None | Some c' \<Rightarrow> cfg_customParams c')"

definition param :: "(string \<times> string) list option \<Rightarrow> string \<Rightarrow> string option" where
  "param ps key = (case ps of None \<Rightarrow> None | Some l \<Rightarrow> map_of l key)"

definition changedParams :: "config option \<Rightarrow> config \<Rightarrow> string list" where
  "changedParams oldConfig newConfig =
    (let oldConfigParamsKeys =
           (case customParams_of oldConfig of Some ps \<Rightarrow> map fst ps | None \<Rightarrow> []);
         newConfigParamsKeys =
           (case cfg_customParams newConfig of Some ps \<Rightarrow> map fst ps | None \<Rightarrow> [])
     in filter (\<lambda>key.
             \<not> (key \<in> set oldConfigParamsKeys \<and>
                param (customParams_of oldConfig) key = param (cfg_customParams newConfig) key))
           newConfigParamsKeys)"

definition setParamsDetected :: "config option \<Rightarrow> config \<Rightarrow> config" where
  "setParamsDetected oldConfig newConfig =
    newConfig\<lparr>cfg_newParamsDetected := Some (changedParams oldConfig newConfig \<noteq> [])\<rparr>"

section \<open>Timers\<close>

text \<open>\<^verbatim>\<open>setInterval\<close> and \<^verbatim>\<open>setTimeout\<close> arm a timer under a fresh
  handle; \<^verbatim>\<open>clearInterval\<close> disarms the timer of a handle. The callback of an
  interval is the poll tick of \<^verbatim>\<open>_checkPollingInterval\<close>, which keeps
  \<open>isLongPoll\<close>.\<close>

definition setInterval :: "bool \<Rightarrow> int option \<Rightarrow> iface \<Rightarrow> nat \<times> iface" where
  "setInterval isLongPoll delay s =
    (nextTimer s,
     s\<lparr>intervals := (nextTimer s, isLongPoll, delay) # intervals s,
       nextTimer := Suc (nextTimer s)\<rparr>)"

definition clearInterval :: "nat option \<Rightarrow> iface \<Rightarrow> iface" where
  "clearInterval h s =
    (case h of None \<Rightarrow> s | Some t \<Rightarrow> s\<lparr>intervals := AList.delete t (intervals s)\<rparr>)"

definition setTimeout :: "timeout_action \<Rightarrow> int \<Rightarrow> iface \<Rightarrow> iface" where
  "setTimeout act delay s =
    s\<lparr>timeouts := (nextTimer s, act, delay) # timeouts s, nextTimer := Suc (nextTimer s)\<rparr>"

section \<open>Polling\<close>

definition pollValue :: "poll \<Rightarrow> iface \<Rightarrow> int option" where
  "pollValue p s = (case p of Short \<Rightarrow> shortPollValue s | Long \<Rightarrow> longPollValue s)"

definition pollTimer :: "poll \<Rightarrow> iface \<Rightarrow> nat option" where
  "pollTimer p s = (case p of Short \<Rightarrow> shortPollTimer s | Long \<Rightarrow> longPollTimer s)"

definition set_pollValue :: "poll \<Rightarrow> int option \<Rightarrow> iface \<Rightarrow> iface" where
  "set_pollValue p v s =
    (case p of Short \<Rightarrow> s\<lparr>shortPollValue := v\<rparr> | Long \<Rightarrow> s\<lparr>longPollValue := v\<rparr>)"

definition set_pollTimer :: "poll \<Rightarrow> nat option \<Rightarrow> iface \<Rightarrow> iface" where
  "set_pollTimer p h s =
    (case p of Short \<Rightarrow> s\<lparr>shortPollTimer := h\<rparr> | Long \<Rightarrow> s\<lparr>longPollTimer := h\<rparr>)"

definition poll_name :: "poll \<Rightarrow> string" where
  "poll_name p = (case p of Short \<Rightarrow> ''short'' | Long \<Rightarrow> ''long'')"

text \<open>\<^verbatim>\<open>_checkPollingInterval(poll, newValue)\<close>. A stored period is truthy when it
  is a number other than zero. The new timer is armed at \<^verbatim>\<open>this[valueProp] * 1000\<close>
  whatever the new value is.\<close>

definition checkPollingInterval :: "poll \<Rightarrow> int option \<Rightarrow> iface \<Rightarrow> iface" where
  "checkPollingInterval p newValue s =
    (if pollValue p s \<noteq> newValue then
       let s1 = (if pollValue p s \<noteq> None \<and> pollValue p s \<noteq> Some 0
                 then log LInfo ''Change %sPoll value from %s to %s'' [poll_name p] s
                 else log LInfo ''Set %sPoll value to %s'' [poll_name p] s);
           s2 = (if pollTimer p s1 \<noteq> None then clearInterval (pollTimer p s1) s1 else s1);
           s3 = set_pollValue p newValue s2;
           isLongPoll = (p = Long);
           (h, s4) = setInterval isLongPoll (map_option (\<lambda>v. v * 1000) (pollValue p s3)) s3
       in set_pollTimer p (Some h) s4
     else s)"

text \<open>The callback of an interval timer. A handle that is not armed does not tick.\<close>

definition intervalTick :: "nat \<Rightarrow> iface \<Rightarrow> iface" where
  "intervalTick h s =
    (case map_of (intervals s) h of
       None \<Rightarrow> s
     | Some (isLongPoll, delay) \<Rightarrow>
         if \<not> shuttingDown s then emit ''poll'' (PBool isLongPoll) s else s)"

section \<open>Loop detection\<close>

text \<open>\<^verbatim>\<open>_detectConfigLoop()\<close>: count this configuration, arm the timer that takes
  it off the count after 10 seconds, and tell whether the count is over 30.\<close>

definition detectConfigLoop :: "iface \<Rightarrow> bool \<times> iface" where
  "detectConfigLoop s =
    (let s1 = s\<lparr>configCounter := configCounter s + 1\<rparr>;
         s2 = setTimeout DecrementConfigCounter 10000 s1
     in (configCounter s2 > 30, s2))"

section \<open>Applying a configuration snapshot\<close>

text \<open>The \<^verbatim>\<open>propertyMapper\<close> of \<^verbatim>\<open>_onConfig\<close>, with the identity for a
  property it does not list.\<close>

definition propertyMapper :: "string \<Rightarrow> jsval \<Rightarrow> propval" where
  "propertyMapper prop v =
    (if prop = ''timeAdded'' then (case v of Str t \<Rightarrow> DateOfParseInt t | _ \<Rightarrow> Raw v)
     else if prop = ''profileNum'' then (case v of Str x \<Rightarrow> Raw (Bool (x = ''true'')) | _ \<Rightarrow> Raw v)
     else Raw v)"

definition update_props :: "node_cfg \<Rightarrow> node \<Rightarrow> node" where
  "update_props n nd =
    fold (\<lambda>prop nd.
        case map_of (nc_props n) prop of
          None \<Rightarrow> nd
        | Some v \<Rightarrow> nd\<lparr>nd_props := AList.update prop (propertyMapper prop v) (nd_props nd)\<rparr>)
      [''controller'', ''drivers'', ''isprimary'', ''profileNum'', ''timeAdded''] nd"

text \<open>One round of the first loop of \<^verbatim>\<open>_onConfig\<close>, for the address and its
  entry \<open>n\<close>: a record is created when the address is new and the class of
  \<open>n.nodedefid\<close> is declared; the record, new or old, takes the properties of \<open>n\<close>.\<close>

definition config_node :: "string \<times> node_cfg \<Rightarrow> iface \<Rightarrow> iface" where
  "config_node an s =
    (let (address, n) = an in
     case map_of (nodes s) address of
       None \<Rightarrow>
         (let primary = drop 5 (nc_primary n) in
          if nc_nodedefid n \<in> set (nodeClasses s) then
            let nd = \<lparr>nd_class = nc_nodedefid n, nd_primary = primary, nd_address = address,
                      nd_name = nc_name n, nd_props = []\<rparr>;
                s1 = effect (NodeCall ''convertDrivers'' address) s
            in s1\<lparr>nodes := AList.update address (update_props n nd) (nodes s1)\<rparr>
          else log LError ''Config node with address %s has an invalid class %s'' [address] s)
     | Some nd \<Rightarrow> s\<lparr>nodes := AList.update address (update_props n nd) (nodes s)\<rparr>)"

text \<open>The second loop, under its guard on the two numbers of keys.\<close>

definition remove_node :: "config \<Rightarrow> string \<Rightarrow> iface \<Rightarrow> iface" where
  "remove_node c address s =
    (case map_of (cfg_nodes c) address of
       Some found \<Rightarrow> s
     | None \<Rightarrow>
         (let s1 = log LInfo ''Node %s was removed from the config'' [address] s
          in s1\<lparr>nodes := AList.delete address (nodes s1)\<rparr>))"

definition remove_missing :: "config \<Rightarrow> iface \<Rightarrow> iface" where
  "remove_missing c s =
    (if length (map fst (cfg_nodes c)) \<noteq> length (map fst (nodes s))
     then fold (remove_node c) (map fst (nodes s)) s
     else s)"

text \<open>\<^verbatim>\<open>_onConfig(config, isInitialConfig)\<close>.\<close>

definition onConfig :: "config \<Rightarrow> bool \<Rightarrow> iface \<Rightarrow> iface" where
  "onConfig c isInitialConfig s =
    (let s1 = fold config_node (cfg_nodes c) s;
         s2 = remove_missing c s1;
         c' = setParamsDetected (config s2) c;
         s3 = s2\<lparr>config := Some c'\<rparr>;
         s4 = checkPollingInterval Short (cfg_shortPoll c') s3;
         s5 = checkPollingInterval Long (cfg_longPoll c') s4;
         (loop, s6) = detectConfigLoop s5
     in if \<not> loop then emit ''config'' (PConfig c' isInitialConfig (nodes s6)) s6
        else log LError
          ''Config processing loop detected iteration %d. Skipping config processing.'' [] s6)"

section \<open>Promises and sending\<close>

definition promise_state :: "iface \<Rightarrow> nat \<Rightarrow> pstate" where
  "promise_state s p = (if p < length (promises s) then promises s ! p else Pending)"

definition new_Promise :: "iface \<Rightarrow> nat \<times> iface" where
  "new_Promise s = (length (promises s), s\<lparr>promises := promises s @ [Pending]\<rparr>)"

text \<open>\<^verbatim>\<open>resolve\<close> and \<^verbatim>\<open>reject\<close> of a promise: the first settlement
  stands, and it queues the calls that await the promise, in the order in which they
  began to wait; a later settlement does nothing.\<close>

definition settle :: "nat \<Rightarrow> pstate \<Rightarrow> iface \<Rightarrow> iface" where
  "settle p v s =
    (if p < length (promises s) \<and> promises s ! p = Pending then
       s\<lparr>promises := (promises s)[p := v],
         microtasks := microtasks s @ map snd (filter (\<lambda>w. fst w = p) (awaiting s)),
         awaiting := filter (\<lambda>w. fst w \<noteq> p) (awaiting s)\<rparr>
     else s)"

text \<open>\<^verbatim>\<open>await\<close> on a promise: the call goes on in a microtask, queued at once when
  the promise is settled, and at its settlement otherwise.\<close>

definition await :: "nat \<Rightarrow> cont \<Rightarrow> iface \<Rightarrow> iface" where
  "await p k s =
    (if promise_state s p = Pending then s\<lparr>awaiting := awaiting s @ [(p, k)]\<rparr>
     else s\<lparr>microtasks := microtasks s @ [k]\<rparr>)"

text \<open>\<^verbatim>\<open>_sendMessage(message, service)\<close>: stamps the message, emits it and
  publishes it; on a \<^verbatim>\<open>null\<close> client the publish raises.\<close>

definition sendMessage_internal ::
  "message \<Rightarrow> string option \<Rightarrow> iface \<Rightarrow> js_error option \<times> iface" where
  "sendMessage_internal message service s =
    (let topic = (case service of
                    None \<Rightarrow> sendTopic s
                  | Some sv \<Rightarrow> if sv \<noteq> [] then stage s @ ''/'' @ sv else sendTopic s);
         m1 = AList.update ''userId'' (userId s) message;
         m2 = AList.update ''topic'' (Str (recvTopic s)) m1;
         m3 = AList.update ''profileNum'' (Str (profileNum s)) m2;
         m4 = AList.update ''id'' (Str (ident s)) m3;
         s1 = emit ''messageSent'' (PMessage m4) s
     in if mqttClient s1 then (None, effect (Publish topic m4) s1)
        else (Some (TypeError ''Cannot read property publish of null''), s1))"

definition isConnected :: "iface \<Rightarrow> bool" where
  "isConnected s = mqttClientConnected s"

definition sendMessage :: "message \<Rightarrow> iface \<Rightarrow> js_error option \<times> iface" where
  "sendMessage message s =
    (if isConnected s then sendMessage_internal message None s else (None, s))"

definition timeout_error :: js_error where
  "timeout_error = JsError ''timeout'' ''Polyglot result message not received''"

text \<open>The part of \<^verbatim>\<open>sendMessageAsync\<close> after its \<^verbatim>\<open>await\<close>: the new
  promise and its executor (an exception of the executor rejects the promise), the
  entry in the ledger, and the return of the promise to the caller.\<close>

definition sendMessageAsync_resume :: "cont \<Rightarrow> iface \<Rightarrow> iface" where
  "sendMessageAsync_resume k s =
    (let (p, s1) = new_Promise s;
         (newTracker, s2) =
           (if isConnected s1 then
              (\<lparr>promise = p, callbacks = True\<rparr>,
               (case sendMessage_internal (k_message k) None s1 of
                  (None, s') \<Rightarrow>
                    if k_timeout k \<noteq> 0 then setTimeout (RejectTimeout p) (k_timeout k) s' else s'
                | (Some e, s') \<Rightarrow> settle p (RejectedErr e) s'))
            else
              (\<lparr>promise = p, callbacks = False\<rparr>,
               settle p (RejectedErr (new_Error ''Polyglot not connected'')) s1))
     in s2\<lparr>messageAsyncTracking := AList.update (k_key k) newTracker (messageAsyncTracking s2),
           calls := (calls s2)[k_call k := Some p]\<rparr>)"

text \<open>\<^verbatim>\<open>sendMessageAsync(key, message, timeout = 15000)\<close>, up to its
  \<^verbatim>\<open>await\<close>. The result is the number of the call, under which \<open>calls\<close>
  holds the promise the call comes to return.\<close>

definition sendMessageAsync ::
  "string \<Rightarrow> message \<Rightarrow> int option \<Rightarrow> iface \<Rightarrow> nat \<times> iface" where
  "sendMessageAsync key message timeout s =
    (let c = length (calls s);
         k = \<lparr>k_call = c, k_key = key, k_message = message,
               k_timeout = (case timeout of None \<Rightarrow> 15000 | Some t \<Rightarrow> t)\<rparr>;
         s1 = s\<lparr>calls := calls s @ [None]\<rparr>
     in case map_of (messageAsyncTracking s1) key of
          Some t \<Rightarrow> (c, await (promise t) k s1)
        | None \<Rightarrow> (c, sendMessageAsync_resume k s1))"

text \<open>The state of the promise a call of \<^verbatim>\<open>sendMessageAsync\<close> returned: pending
  while the call waits, and the state of its tracked promise from then on.\<close>

definition returned :: "iface \<Rightarrow> nat \<Rightarrow> pstate" where
  "returned s c =
    (if c < length (calls s)
     then (case calls s ! c of None \<Rightarrow> Pending | Some p \<Rightarrow> promise_state s p)
     else Pending)"

text \<open>The microtasks at the end of a task: the suspended calls go on, oldest first.\<close>

definition runMicrotasks :: "iface \<Rightarrow> iface" where
  "runMicrotasks s = fold sendMessageAsync_resume (microtasks s) (s\<lparr>microtasks := []\<rparr>)"

text \<open>A \<^verbatim>\<open>setTimeout\<close> timer fires: once, with the callback it was armed with.\<close>

definition timeoutFire :: "nat \<Rightarrow> iface \<Rightarrow> iface" where
  "timeoutFire h s =
    (case map_of (timeouts s) h of
       None \<Rightarrow> s
     | Some (act, delay) \<Rightarrow>
         (let s1 = s\<lparr>timeouts := AList.delete h (timeouts s)\<rparr> in
          case act of
            DecrementConfigCounter \<Rightarrow> s1\<lparr>configCounter := configCounter s1 - 1\<rparr>
          | RejectTimeout p \<Rightarrow> settle p (RejectedErr timeout_error) s1))"

section \<open>Inbound messages\<close>

text \<open>A loop body that may raise: \<^verbatim>\<open>forEach\<close> stops at the first exception,
  with the state as it is then.\<close>

fun forEach :: "('a \<Rightarrow> iface \<Rightarrow> js_error option \<times> iface) \<Rightarrow> 'a list \<Rightarrow> iface
    \<Rightarrow> js_error option \<times> iface" where
  "forEach f [] s = (None, s)"
| "forEach f (x # xs) s =
    (case f x s of (None, s') \<Rightarrow> forEach f xs s' | (Some e, s') \<Rightarrow> (Some e, s'))"

definition trackedCommands :: "string list" where
  "trackedCommands = [''addnode'']"

definition ignoredKeys :: "string list" where
  "ignoredKeys = [''removenode'', ''profileNum'', ''statusCode'', ''seq'', ''elapsed'', ''status'']"

definition rv_address :: "result_val \<Rightarrow> string" where
  "rv_address v = (case v of ResBody b \<Rightarrow> rb_address b | ResOther x \<Rightarrow> ''undefined'')"

definition rv_success :: "result_val \<Rightarrow> jsval" where
  "rv_success v = (case v of ResBody b \<Rightarrow> rb_success b | ResOther x \<Rightarrow> Undefined)"

definition rv_reason :: "result_val \<Rightarrow> jsval" where
  "rv_reason v = (case v of ResBody b \<Rightarrow> rb_reason b | ResOther x \<Rightarrow> Undefined)"

definition nullish :: "result_val \<Rightarrow> bool" where
  "nullish v = (v = ResOther Undefined \<or> v = ResOther Null)"

text \<open>One round of the loop of \<^verbatim>\<open>_onResult(messageContent)\<close>. Calling the
  \<^verbatim>\<open>resolve\<close> or \<^verbatim>\<open>reject\<close> of an entry that was stored without them
  raises.\<close>

definition onResult_key ::
  "(string \<times> result_val) list \<Rightarrow> string \<times> result_val \<Rightarrow> iface \<Rightarrow> js_error option \<times> iface" where
  "onResult_key mc kv s =
    (let (key, v) = kv in
     if key \<in> set trackedCommands then
       if nullish v then (Some (TypeError ''Cannot read property address''), s)
       else
         (case map_of (messageAsyncTracking s) (key @ ''-'' @ rv_address v) of
            None \<Rightarrow> (None, s)
          | Some trackedRequest \<Rightarrow>
              if \<not> callbacks trackedRequest
              then (Some (TypeError ''trackedRequest.resolve is not a function''), s)
              else if truthy (rv_success v)
              then (None, settle (promise trackedRequest) (Fulfilled (rv_reason v)) s)
              else (None, settle (promise trackedRequest) (RejectedVal (rv_reason v)) s))
     else if key = ''isyresponse'' then
       (case map_of mc ''status'' of
          Some st \<Rightarrow>
            if nullish st
            then (None, log LInfo ''Received result ISY Response: %o'' []
                    (log LError ''Error on Received result:'' [] s))
            else (None, log LInfo ''Received result ISY Response: %s'' [] s)
        | None \<Rightarrow>
            (None, log LInfo ''Received result ISY Response: %o'' []
               (log LError ''Error on Received result:'' [] s)))
     else if key \<in> set ignoredKeys then (None, s)
     else (None, log LInfo ''Received result for unhandled command %s: %o'' [key] s))"

text \<open>A payload of another shape than the one its key calls for is outside the
  protocol; the handlers raise on it as they do when they read a missing object.\<close>

definition onResult :: "content \<Rightarrow> iface \<Rightarrow> js_error option \<times> iface" where
  "onResult c s =
    (case c of
       CResult mc \<Rightarrow> forEach (onResult_key mc) mc s
     | _ \<Rightarrow> (Some (TypeError ''unexpected result payload''), s))"

text \<open>Modelled from the spec: the Queue class (Queue.js) is not among the sources.
  \<open>enqueue(item)\<close> appends to a strictly ordered pending list; a single worker takes
  the items one at a time and runs the handler on each; a handler raising an error is
  caught, logged, and does not halt the queue.\<close>

definition queue_add :: "queued \<Rightarrow> iface \<Rightarrow> iface" where
  "queue_add item s = s\<lparr>queue := queue s @ [item]\<rparr>"

definition queuedMessages :: "string list" where
  "queuedMessages = [''config'', ''query'', ''command'', ''status'', ''polls'', ''oauth'',
     ''startLogStream'', ''stopLogStream'']"

definition ignoredMessages :: "string list" where
  "ignoredMessages = [''userId'', ''clientId'', ''id'', ''profileNum'']"

definition content_truthy :: "content \<Rightarrow> bool" where
  "content_truthy c = (case c of CValue v \<Rightarrow> truthy v | _ \<Rightarrow> True)"

text \<open>One round of the loop of \<^verbatim>\<open>_onMessage(message)\<close>, for a key and its
  content.\<close>

definition onMessage_key ::
  "envelope \<Rightarrow> string \<times> content \<Rightarrow> iface \<Rightarrow> js_error option \<times> iface" where
  "onMessage_key message kc s =
    (let (key, content) = kc in
     if key = ''result'' then onResult content s
     else if key = ''stop'' then
       (None, emit ''stop'' PNone
                ((log LWarn ''Received stop message'' [] s)\<lparr>shuttingDown := True\<rparr>))
     else if key = ''delete'' then
       (None, emit ''delete'' PNone
                ((log LWarn ''Received delete message'' [] s)\<lparr>shuttingDown := True\<rparr>))
     else if key \<in> set queuedMessages then
       (None, queue_add
          \<lparr>messageKey = key, messageContent = content,
           clientId = (case map_of message ''clientId'' of
                         Some cid \<Rightarrow> if content_truthy cid then cid else CValue Null
                       | None \<Rightarrow> CValue Null)\<rparr> s)
     else if key \<in> set ignoredMessages then (None, s)
     else (None, log LError ''Invalid message %s received %o:'' [key] s))"

definition onMessage :: "envelope \<Rightarrow> iface \<Rightarrow> js_error option \<times> iface" where
  "onMessage message s =
    forEach (onMessage_key message) message (emit ''messageReceived'' (PEnvelope message) s)"

text \<open>\<^verbatim>\<open>getNode(address)\<close>, with its two error logs.\<close>

definition getNode :: "jsval \<Rightarrow> iface \<Rightarrow> node option \<times> iface" where
  "getNode address s =
    (case address of
       Str a \<Rightarrow>
         (case map_of (nodes s) a of
            None \<Rightarrow> (None, log LError ''Node %s not found'' [a] s)
          | Some nd \<Rightarrow> (Some nd, s))
     | _ \<Rightarrow> (None, log LError ''getNode error: Parameter is not a string'' [] s))"

definition node_call :: "string \<Rightarrow> node_msg \<Rightarrow> iface \<Rightarrow> node option \<times> iface" where
  "node_call method m s =
    (case getNode (nm_address m) s of
       (None, s') \<Rightarrow> (None, s')
     | (Some nd, s') \<Rightarrow> (Some nd, effect (NodeCall method (nd_address nd)) s'))"

text \<open>\<^verbatim>\<open>_onMessageQueued(opt)\<close>, the handler of the queue. The methods of the
  device record (query, status, runCmd) are calls to a collaborator.\<close>

definition onMessageQueued :: "queued \<Rightarrow> iface \<Rightarrow> js_error option \<times> iface" where
  "onMessageQueued opt s =
    (let key = messageKey opt; content = messageContent opt in
     if \<not> shuttingDown s then
       if key = ''config'' then
         (case content of
            CConfig c \<Rightarrow> (None, onConfig c False s)
          | _ \<Rightarrow> (Some (TypeError ''unexpected config payload''), s))
       else if key = ''query'' then
         (case content of
            CNode m \<Rightarrow> (None, snd (node_call ''query'' m s))
          | _ \<Rightarrow> (Some (TypeError ''unexpected query payload''), s))
       else if key = ''status'' then
         (case content of
            CNode m \<Rightarrow> (None, snd (node_call ''status'' m s))
          | _ \<Rightarrow> (Some (TypeError ''unexpected status payload''), s))
       else if key = ''command'' then
         (case content of
            CNode m \<Rightarrow>
              (case node_call ''runCmd'' m s of
                 (None, s') \<Rightarrow> (None, s')
               | (Some nd, s') \<Rightarrow>
                   (case nm_requestId m of
                      None \<Rightarrow> (None, s')
                    | Some r \<Rightarrow>
                        sendMessage_internal
                          [(''report'', Obj [(''requestId'', r), (''success'', Bool True)])]
                          (Some ''isy'') s'))
          | _ \<Rightarrow> (Some (TypeError ''unexpected command payload''), s))
       else if key = ''polls'' then
         (case content of
            CPolls sp lp \<Rightarrow>
              (case config s of
                 None \<Rightarrow> (Some (TypeError ''Cannot set property shortPoll of undefined''), s)
               | Some c \<Rightarrow>
                   (let s1 = s\<lparr>config := Some (c\<lparr>cfg_shortPoll := sp, cfg_longPoll := lp\<rparr>)\<rparr>;
                        s2 = checkPollingInterval Short sp s1
                    in (None, checkPollingInterval Long lp s2)))
          | _ \<Rightarrow> (Some (TypeError ''unexpected polls payload''), s))
       else if key = ''oauth'' then (None, emit ''oauth'' (PContent content) s)
       else (None, log LError ''Invalid queued message %s received %o:'' [key] s)
     else (None, log LWarn ''Message %s ignored: Shutting down nodeserver'' [key] s))"

definition queueWorker :: "iface \<Rightarrow> iface" where
  "queueWorker s =
    (case queue s of
       [] \<Rightarrow> s
     | item # rest \<Rightarrow>
         (case onMessageQueued item (s\<lparr>queue := rest\<rparr>) of
            (None, s') \<Rightarrow> s'
          | (Some e, s') \<Rightarrow> log LError ''Message Queue Processor'' [err_message e] s'))"

section \<open>The public methods and the handlers of the MQTT client\<close>

text \<open>The constructor: the interface before \<^verbatim>\<open>start()\<close>, for the declared
  definition ids, the configuration of the environment (if it could be read) and the
  identity of the session.\<close>

definition Interface ::
  "string list \<Rightarrow> config option \<Rightarrow> string \<Rightarrow> string \<Rightarrow> jsval \<Rightarrow> string \<Rightarrow> string \<Rightarrow> iface" where
  "Interface declaredNodeClasses env_config env_stage worker uid pnum idn =
    \<lparr>config = env_config, stage = env_stage, userId = uid, profileNum = pnum, ident = idn,
     recvTopic = env_stage @ ''/ns/'' @ worker, sendTopic = env_stage @ ''/ns'',
     mqttClient = False, mqttClientConnected = False, queue = [],
     messageAsyncTracking = [], shuttingDown = False,
     nodeClasses = declaredNodeClasses, nodes = [], configCounter = 0,
     shortPollValue = None, longPollValue = None,
     shortPollTimer = None, longPollTimer = None,
     promises = [], calls = [], awaiting = [], microtasks = [],
     intervals = [], timeouts = [], nextTimer = 0,
     trace = [Log LInfo ''Polyglot topic: %s'' [env_stage @ ''/ns/'' @ worker],
              Log LInfo ''Logging topic: %s'' []]\<rparr>"

definition start :: "iface \<Rightarrow> iface" where
  "start s = (log LInfo ''Interface starting'' [] s)\<lparr>mqttClient := True\<rparr>"

text \<open>\<^verbatim>\<open>stop()\<close>.\<close>

definition stop :: "iface \<Rightarrow> js_error option \<times> iface" where
  "stop s =
    (case sendMessage_internal [(''connected'', Bool False)] None s of
       (Some e, s1) \<Rightarrow> (Some e, s1)
     | (None, s1) \<Rightarrow>
         (let s2 = effect MqttEnd s1;
              s3 = clearInterval (shortPollTimer s2) s2
          in (None, clearInterval (longPollTimer s3) s3)))"

text \<open>The handler of \<^verbatim>\<open>connect\<close>, with its \<^verbatim>\<open>try\<close> and \<^verbatim>\<open>catch\<close>.
  \<^verbatim>\<open>_onConfig\<close> raises on a configuration that is \<^verbatim>\<open>undefined\<close>.\<close>

definition on_connect :: "iface \<Rightarrow> iface" where
  "on_connect s =
    (let s1 = (log LInfo ''MQTT client connected'' [] s)\<lparr>mqttClientConnected := True\<rparr> in
     if \<not> mqttClient s1 then log LError ''Error on MQTT connect handler:'' [] s1
     else
       (case sendMessage_internal [(''connected'', Bool True)] None
               (effect (MqttSubscribe (recvTopic s1)) s1) of
          (Some e, s2) \<Rightarrow> log LError ''Error on MQTT connect handler:'' [err_message e] s2
        | (None, s2) \<Rightarrow>
            (let s3 = emit ''mqttConnected'' PNone s2 in
             case config s3 of
               None \<Rightarrow> log LError ''Error on MQTT connect handler:'' [] s3
             | Some c \<Rightarrow> onConfig c True s3)))"

text \<open>The handler of \<^verbatim>\<open>message\<close>, for a message that parses to the envelope.\<close>

definition on_message :: "envelope \<Rightarrow> iface \<Rightarrow> iface" where
  "on_message message s =
    (case onMessage message s of
       (None, s') \<Rightarrow> s'
     | (Some e, s') \<Rightarrow> log LError ''Error processing %s:'' [err_message e] s')"

definition on_reconnect :: "iface \<Rightarrow> iface" where
  "on_reconnect s = emit ''mqttReconnect'' PNone (s\<lparr>mqttClientConnected := True\<rparr>)"

definition on_offline :: "iface \<Rightarrow> iface" where
  "on_offline s = emit ''mqttOffline'' PNone (s\<lparr>mqttClientConnected := False\<rparr>)"

definition on_close :: "iface \<Rightarrow> iface" where
  "on_close s = emit ''mqttClose'' PNone (s\<lparr>mqttClientConnected := False\<rparr>)"

definition on_end :: "iface \<Rightarrow> iface" where
  "on_end s = emit ''mqttEnd'' PNone (s\<lparr>mqttClientConnected := False\<rparr>)"

definition on_error :: "iface \<Rightarrow> iface" where
  "on_error s = log LError ''MQTT Error'' [] s"

subsection \<open>Adding and deleting a node\<close>

text \<open>
  The argument of \<^verbatim>\<open>addNode\<close> and \<^verbatim>\<open>delNode\<close>: an object, with what the two
  methods read of it, or a value that is no object. \<open>na_isNode\<close> tells whether the
  object is an instance of the Node class, \<open>na_convertDrivers\<close> whether it has the
  method \<^verbatim>\<open>convertDrivers\<close>; \<open>na_drivers\<close> is \<^verbatim>\<open>node.drivers\<close> once that
  method has run. \<open>na_address = None\<close> is an address that is \<^verbatim>\<open>undefined\<close>.
\<close>

record node_arg =
  na_isNode :: bool
  na_convertDrivers :: bool
  na_address :: "string option"
  na_name :: jsval
  na_id :: jsval
  na_primary :: jsval
  na_isController :: jsval
  na_drivers :: jsval
  na_hint :: jsval

datatype arg = NotObject jsval | Object node_arg

definition arg_truthy :: "arg \<Rightarrow> bool" where
  "arg_truthy a = (case a of NotObject v \<Rightarrow> truthy v | Object ob \<Rightarrow> True)"

text \<open>\<^verbatim>\<open>!node\<close> is a boolean; \<^verbatim>\<open>x instanceof Node\<close> holds of the objects
  of the class only.\<close>

definition js_not :: "arg \<Rightarrow> arg" where
  "js_not a = NotObject (Bool (\<not> arg_truthy a))"

definition instanceof_Node :: "arg \<Rightarrow> bool" where
  "instanceof_Node a = (case a of NotObject v \<Rightarrow> False | Object ob \<Rightarrow> na_isNode ob)"

definition address_val :: "string option \<Rightarrow> jsval" where
  "address_val a = (case a of None \<Rightarrow> Undefined | Some x \<Rightarrow> Str x)"

definition address_str :: "string option \<Rightarrow> string" where
  "address_str a = (case a of None \<Rightarrow> ''undefined'' | Some x \<Rightarrow> x)"

text \<open>What an \<^verbatim>\<open>async\<close> method hands back: a promise that is rejected with the
  exception the body raised, fulfilled with the value the body returned, or settled as
  the promise of the call of \<^verbatim>\<open>sendMessageAsync\<close> it awaits.\<close>

datatype async_result = Raised js_error | Returned jsval | Awaits nat

text \<open>\<^verbatim>\<open>addNode(node)\<close>. The guard is \<^verbatim>\<open>!node instanceof Node\<close>, which
  JavaScript reads as \<^verbatim>\<open>(!node) instanceof Node\<close>.\<close>

definition addNode :: "arg \<Rightarrow> iface \<Rightarrow> async_result \<times> iface" where
  "addNode node s =
    (if instanceof_Node (js_not node) then
       (Returned Undefined,
        log LError ''addNode error: node is not an instance of Node class'' [] s)
     else
       (case node of
          NotObject v \<Rightarrow> (Raised (TypeError ''node.convertDrivers is not a function''), s)
        | Object ob \<Rightarrow>
            if \<not> na_convertDrivers ob
            then (Raised (TypeError ''node.convertDrivers is not a function''), s)
            else
              (let s1 = effect (NodeCall ''convertDrivers'' (address_str (na_address ob))) s;
                   body = [(''address'', address_val (na_address ob)), (''name'', na_name ob),
                           (''nodedefid'', na_id ob), (''primary'', na_primary ob),
                           (''isController'', na_isController ob), (''drivers'', na_drivers ob)];
                   body' = (case na_hint ob of
                              Str h \<Rightarrow> if h \<noteq> [] then body @ [(''hint'', Str h)] else body
                            | _ \<Rightarrow> body);
                   message = [(''addnode'', Obj body')];
                   s2 = log LInfo ''Sending message'' [] s1;
                   (c, s3) = sendMessageAsync (''addnode-'' @ address_str (na_address ob))
                               message None s2
               in (Awaits c, s3))))"

text \<open>\<^verbatim>\<open>delNode(node)\<close>, with the same guard.\<close>

definition delNode :: "arg \<Rightarrow> iface \<Rightarrow> js_error option \<times> iface" where
  "delNode node s =
    (if instanceof_Node (js_not node) then
       (None, log LError ''delNode error: node is not an instance of Node class'' [] s)
     else
       (case node of
          NotObject v \<Rightarrow>
            if v = Undefined \<or> v = Null
            then (Some (TypeError ''Cannot read property address''), s)
            else sendMessage [(''removenode'', Obj [(''address'', Undefined)])] s
        | Object ob \<Rightarrow>
            sendMessage [(''removenode'', Obj [(''address'', address_val (na_address ob))])] s))"

section \<open>Everything that can happen to the interface\<close>

text \<open>The calls of the node server, the events of the MQTT client, the timers, the
  worker of the queue and the microtasks that end a task.\<close>

datatype action =
    CallStart
  | CallStop
  | CallSendMessage message
  | CallSendMessageAsync string message "int option"
  | CallAddNode arg
  | CallDelNode arg
  | MqttConnect
  | MqttMessage envelope
  | MqttReconnect
  | MqttOffline
  | MqttClose
  | MqttEnded
  | MqttError
  | QueueWorker
  | IntervalTick nat
  | TimeoutFire nat
  | Microtasks

fun step :: "action \<Rightarrow> iface \<Rightarrow> iface" where
  "step CallStart s = start s"
| "step CallStop s = snd (stop s)"
| "step (CallSendMessage m) s = snd (sendMessage m s)"
| "step (CallSendMessageAsync key m t) s = snd (sendMessageAsync key m t s)"
| "step (CallAddNode a) s = snd (addNode a s)"
| "step (CallDelNode a) s = snd (delNode a s)"
| "step MqttConnect s = on_connect s"
| "step (MqttMessage m) s = on_message m s"
| "step MqttReconnect s = on_reconnect s"
| "step MqttOffline s = on_offline s"
| "step MqttClose s = on_close s"
| "step MqttEnded s = on_end s"
| "step MqttError s = on_error s"
| "step QueueWorker s = queueWorker s"
| "step (IntervalTick h) s = intervalTick h s"
| "step (TimeoutFire h) s = timeoutFire h s"
| "step Microtasks s = runMicrotasks s"

definition run :: "action list \<Rightarrow> iface \<Rightarrow> iface" where
  "run as s = fold step as s"

section \<open>Example inputs\<close>

definition empty_snapshot :: config where
  "empty_snapshot = \<lparr>cfg_nodes = [], cfg_customParams = None, cfg_shortPoll = None,
     cfg_longPoll = None, cfg_newParamsDetected = None, cfg_rest = []\<rparr>"

text \<open>The snapshot of the scenario of the specification, with poll periods.\<close>

definition snapshot_a1 :: config where
  "snapshot_a1 = \<lparr>cfg_nodes =
       [(''a1'', \<lparr>nc_nodedefid = ''D1'', nc_primary = ''n001_a1'', nc_name = ''X'',
                   nc_props = []\<rparr>)],
     cfg_customParams = Some [(''k'', ''v'')], cfg_shortPoll = Some 30, cfg_longPoll = Some 60,
     cfg_newParamsDetected = None, cfg_rest = []\<rparr>"

text \<open>An interface for the declared class \<open>D1\<close>, with that snapshot as the
  configuration of its environment, before and after it connects.\<close>

definition example_interface :: iface where
  "example_interface =
     Interface [''D1''] (Some snapshot_a1) ''test'' ''w1'' (Str ''u1'') ''1'' ''id1''"

definition connected_interface :: iface where
  "connected_interface = on_connect (start example_interface)"

text \<open>A snapshot without \<open>a1\<close>, whose one node is of a class that is not declared.\<close>

definition snapshot_b1 :: config where
  "snapshot_b1 = \<lparr>cfg_nodes =
       [(''b1'', \<lparr>nc_nodedefid = ''DX'', nc_primary = ''n001_b1'', nc_name = ''B'',
                   nc_props = []\<rparr>)],
     cfg_customParams = Some [(''k'', ''v'')], cfg_shortPoll = Some 30, cfg_longPoll = Some 60,
     cfg_newParamsDetected = None, cfg_rest = []\<rparr>"

definition params_config :: "(string \<times> string) list option \<Rightarrow> config" where
  "params_config ps = empty_snapshot\<lparr>cfg_customParams := ps\<rparr>"



text \<open>The connected interface after \<^verbatim>\<open>sendMessageAsync('addnode-a1', ...)\<close>.\<close>

definition addnode_a1_pending :: iface where
  "addnode_a1_pending =
     snd (sendMessageAsync ''addnode-a1'' [(''addnode'', Obj [(''address'', Str ''a1'')])] None
            connected_interface)"

text \<open>The same after the timer of the request has fired and the connection went
  offline.\<close>

definition offline_after_timeout :: iface where
  "offline_after_timeout = on_offline (timeoutFire 3 addnode_a1_pending)"

text \<open>Three calls for one key, each in a task of its own, with numbered messages; then
  the result for the first of them comes in. \<open>published\<close> lists the numbers of the
  messages published so far (\<open>None\<close> for a message without a number).\<close>

definition numbered :: "int \<Rightarrow> message" where
  "numbered n = [(''n'', Num n)]"

definition three_calls :: iface where
  "three_calls =
     run [CallSendMessageAsync ''addnode-a1'' (numbered 1) None, Microtasks,
          CallSendMessageAsync ''addnode-a1'' (numbered 2) None, Microtasks,
          CallSendMessageAsync ''addnode-a1'' (numbered 3) None, Microtasks]
       connected_interface"

definition first_settled :: iface where
  "first_settled =
     run [MqttMessage [(''result'', CResult [(''addnode'',
            ResBody \<lparr>rb_address = ''a1'', rb_success = Bool True, rb_reason = Str ''ok''\<rparr>)])],
          Microtasks]
       three_calls"

definition published :: "iface \<Rightarrow> jsval option list" where
  "published s = [map_of m ''n''. Publish topic m \<leftarrow> trace s]"


section \<open>Effects of a step\<close>


text \<open>\<open>adds P s s'\<close>: from \<open>s\<close> to \<open>s'\<close> the trace grew, by effects that satisfy \<open>P\<close>.\<close>

definition adds :: "(effect \<Rightarrow> bool) \<Rightarrow> iface \<Rightarrow> iface \<Rightarrow> bool" where
  "adds P s s' = (\<exists>es. trace s' = trace s @ es \<and> (\<forall>e \<in> set es. P e))"

text \<open>The interface after the two loops of \<^verbatim>\<open>_onConfig\<close>.\<close>

definition reconciled :: "config \<Rightarrow> iface \<Rightarrow> iface" where
  "reconciled c s = remove_missing c (fold config_node (cfg_nodes c) s)"

text \<open>The interface after \<^verbatim>\<open>_onConfig\<close> has stored the configuration and set the
  poll periods, before it looks for a loop.\<close>

definition applied :: "config \<Rightarrow> iface \<Rightarrow> iface" where
  "applied c s =
    (let s2 = reconciled c s;
         c' = setParamsDetected (config s2) c;
         s3 = s2\<lparr>config := Some c'\<rparr>;
         s4 = checkPollingInterval Short (cfg_shortPoll c') s3
     in checkPollingInterval Long (cfg_longPoll c') s4)"

text \<open>The number of warnings in the trace.\<close>

definition is_warning :: "effect \<Rightarrow> bool" where
  "is_warning e = (case e of Log l f a \<Rightarrow> l = LWarn | _ \<Rightarrow> False)"

definition warnings :: "iface \<Rightarrow> nat" where
  "warnings s = length (filter is_warning (trace s))"


section \<open>Lemmas on effects and frames\<close>




lemma adds_same_trace: "trace s' = trace s \<Longrightarrow> adds P s s'"
  by (simp add: adds_def)

lemma adds_effect: "P e \<Longrightarrow> trace s' = trace s \<Longrightarrow> adds P s (effect e s')"
  by (simp add: adds_def effect_def)


lemma adds_emit: "P (Emit ev p) \<Longrightarrow> trace s' = trace s \<Longrightarrow> adds P s (emit ev p s')"
  by (simp add: adds_def emit_def)







subsection \<open>Fields the loops leave alone\<close>

lemma config_node_frame:
  "config (config_node an s) = config s \<and> configCounter (config_node an s) = configCounter s
   \<and> shortPollValue (config_node an s) = shortPollValue s
   \<and> longPollValue (config_node an s) = longPollValue s"
  by (cases an) (auto simp: config_node_def Let_def effect_def log_def split: option.splits)

lemma fold_config_node_frame:
  "config (fold config_node xs s) = config s
   \<and> configCounter (fold config_node xs s) = configCounter s"
  by (induction xs arbitrary: s) (simp_all add: config_node_frame)

lemma remove_node_frame:
  "config (remove_node c a s) = config s \<and> configCounter (remove_node c a s) = configCounter s"
  by (auto simp: remove_node_def Let_def log_def split: option.splits)

lemma fold_remove_node_frame:
  "config (fold (remove_node c) xs s) = config s
   \<and> configCounter (fold (remove_node c) xs s) = configCounter s"
  by (induction xs arbitrary: s) (simp_all add: remove_node_frame)

lemma remove_missing_frame:
  "config (remove_missing c s) = config s \<and> configCounter (remove_missing c s) = configCounter s"
  by (simp add: remove_missing_def fold_remove_node_frame)

lemma checkPollingInterval_frame:
  "config (checkPollingInterval p v s) = config s
   \<and> configCounter (checkPollingInterval p v s) = configCounter s
   \<and> nodes (checkPollingInterval p v s) = nodes s"
  by (cases p)
     (auto simp: checkPollingInterval_def pollValue_def pollTimer_def set_pollValue_def
        set_pollTimer_def setInterval_def clearInterval_def log_def Let_def)



subsection \<open>The loops do not read the counter\<close>








lemma onConfig_counter: "configCounter (onConfig c i s) = configCounter s + 1"
  by (simp add: onConfig_def Let_def detectConfigLoop_def setTimeout_def emit_def log_def
        checkPollingInterval_frame remove_missing_frame fold_config_node_frame split: prod.splits)




section \<open>Lemmas on the shutting-down flag and on warnings\<close>

subsection \<open>The shutting-down flag is left alone\<close>































lemma onConfig_applied:
  "onConfig c i s =
    (case detectConfigLoop (applied c s) of
       (loop, s6) \<Rightarrow>
         if \<not> loop
         then emit ''config'' (PConfig (setParamsDetected (config (reconciled c s)) c) i (nodes s6)) s6
         else log LError
           ''Config processing loop detected iteration %d. Skipping config processing.'' [] s6)"
  unfolding onConfig_def applied_def reconciled_def Let_def ..

subsection \<open>Warnings are not logged\<close>

lemma w_basic:
  "warnings (log l f a s) = (if l = LWarn then Suc (warnings s) else warnings s)"
  "warnings (emit ev p s) = warnings s"
  "warnings (effect e s) = (if is_warning e then Suc (warnings s) else warnings s)"
  "warnings (setTimeout act d s) = warnings s"
  "warnings (clearInterval h s) = warnings s"
  "warnings (settle q v s) = warnings s"
  "warnings (await q k s) = warnings s"
  "warnings (queue_add item s) = warnings s"
  by (simp_all add: warnings_def is_warning_def log_def emit_def effect_def setTimeout_def
        clearInterval_def settle_def await_def queue_add_def split: option.splits)

lemma w_update:
  "warnings (s\<lparr>config := c\<rparr>) = warnings s"
  "warnings (s\<lparr>queue := q\<rparr>) = warnings s"
  "warnings (s\<lparr>promises := ps\<rparr>) = warnings s"
  "warnings (s\<lparr>calls := cs\<rparr>) = warnings s"
  "warnings (s\<lparr>messageAsyncTracking := ts\<rparr>) = warnings s"
  "warnings (s\<lparr>mqttClientConnected := b\<rparr>) = warnings s"
  "warnings (s\<lparr>mqttClient := b\<rparr>) = warnings s"
  "warnings (s\<lparr>configCounter := n\<rparr>) = warnings s"
  "warnings (s\<lparr>timeouts := tos\<rparr>) = warnings s"
  "warnings (s\<lparr>microtasks := ms\<rparr>) = warnings s"
  "warnings (s\<lparr>nodes := ns\<rparr>) = warnings s"
  by (simp_all add: warnings_def)

lemma w_checkPollingInterval: "warnings (checkPollingInterval p v s) = warnings s"
  by (cases p)
     (auto simp: checkPollingInterval_def pollValue_def pollTimer_def set_pollValue_def
        set_pollTimer_def setInterval_def clearInterval_def log_def Let_def warnings_def
        is_warning_def)

lemma w_config_node: "warnings (config_node an s) = warnings s"
  by (cases an)
     (auto simp: config_node_def Let_def w_basic w_update is_warning_def split: option.splits)

lemma w_fold_config_node: "warnings (fold config_node xs s) = warnings s"
  by (induction xs arbitrary: s) (simp_all add: w_config_node)

lemma w_remove_node: "warnings (remove_node c a s) = warnings s"
  by (auto simp: remove_node_def Let_def w_basic w_update split: option.splits)

lemma w_fold_remove_node: "warnings (fold (remove_node c) xs s) = warnings s"
  by (induction xs arbitrary: s) (simp_all add: w_remove_node)

lemma w_remove_missing: "warnings (remove_missing c s) = warnings s"
  by (simp add: remove_missing_def w_fold_remove_node)

lemma w_applied: "warnings (applied c s) = warnings s"
  by (simp add: applied_def reconciled_def Let_def w_checkPollingInterval w_update
        w_remove_missing w_fold_config_node)

lemma w_onConfig: "warnings (onConfig c i s) = warnings s"
  by (simp add: onConfig_applied detectConfigLoop_def Let_def w_basic w_update w_applied)

lemma w_sendMessage_internal: "warnings (snd (sendMessage_internal m sv s)) = warnings s"
  by (simp add: sendMessage_internal_def Let_def w_basic is_warning_def)

lemma w_node_call: "warnings (snd (node_call meth m s)) = warnings s"
  by (simp add: node_call_def getNode_def w_basic is_warning_def
        split: jsval.splits option.splits)

lemma w_onMessageQueued:
  "\<not> shuttingDown s \<Longrightarrow> warnings (snd (onMessageQueued opt s)) = warnings s"
proof -
  have nc: "node_call meth m s = (r, s') \<Longrightarrow> warnings s' = warnings s" for meth m r s'
    using w_node_call [of meth m s] by simp
  have sm: "warnings (snd (sendMessage_internal m sv s')) = warnings s'" for m sv s'
    by (rule w_sendMessage_internal)
  assume "\<not> shuttingDown s"
  then show ?thesis
    by (auto simp: onMessageQueued_def Let_def w_basic w_update w_onConfig w_node_call sm
          w_checkPollingInterval dest: nc split: content.splits option.splits prod.splits)
qed

lemma onMessageQueued_dropped:
  "shuttingDown s \<Longrightarrow>
     onMessageQueued opt s =
       (None, log LWarn ''Message %s ignored: Shutting down nodeserver'' [messageKey opt] s)"
  by (simp add: onMessageQueued_def Let_def)


text \<open>The worker of the queue drops the item it takes in the same case.\<close>

lemma queueWorker_drops_iff:
  assumes "queue s = item # rest"
  shows "queueWorker s =
           log LWarn ''Message %s ignored: Shutting down nodeserver'' [messageKey item]
             (s\<lparr>queue := rest\<rparr>)
         \<longleftrightarrow> shuttingDown s"
proof
  assume "shuttingDown s"
  then show "queueWorker s =
           log LWarn ''Message %s ignored: Shutting down nodeserver'' [messageKey item]
             (s\<lparr>queue := rest\<rparr>)"
    using assms by (simp add: queueWorker_def onMessageQueued_dropped)
next
  assume eq: "queueWorker s =
           log LWarn ''Message %s ignored: Shutting down nodeserver'' [messageKey item]
             (s\<lparr>queue := rest\<rparr>)"
  show "shuttingDown s"
  proof (rule ccontr)
    assume n: "\<not> shuttingDown s"
    obtain r s' where q: "onMessageQueued item (s\<lparr>queue := rest\<rparr>) = (r, s')"
      by (cases "onMessageQueued item (s\<lparr>queue := rest\<rparr>)")
    from n w_onMessageQueued [of "s\<lparr>queue := rest\<rparr>" item] q
    have "warnings s' = warnings s" by (simp add: w_update)
    with assms q have "warnings (queueWorker s) = warnings s"
      by (cases r) (simp_all add: queueWorker_def w_basic)
    with eq show False by (simp add: w_basic w_update)
  qed
qed




section \<open>Lemmas on sending\<close>










subsection \<open>Results\<close>




subsection \<open>Sending while not connected\<close>

lemma resume_not_connected:
  assumes "\<not> isConnected s"
  shows "trace (sendMessageAsync_resume k s) = trace s"
    and "\<not> isConnected (sendMessageAsync_resume k s)"
    and "length (calls (sendMessageAsync_resume k s)) = length (calls s)"
    and "k_call k < length (calls s) \<Longrightarrow>
           returned (sendMessageAsync_resume k s) (k_call k)
             = RejectedErr (new_Error ''Polyglot not connected'')"
  using assms
  by (simp_all add: sendMessageAsync_resume_def new_Promise_def isConnected_def Let_def
        settle_def returned_def promise_state_def)

lemma fold_resume_not_connected:
  assumes "\<not> isConnected s"
  shows "trace (fold sendMessageAsync_resume ks s) = trace s
       \<and> \<not> isConnected (fold sendMessageAsync_resume ks s)
       \<and> length (calls (fold sendMessageAsync_resume ks s)) = length (calls s)"
  using assms
proof (induction ks arbitrary: s)
  case Nil
  then show ?case by simp
next
  case (Cons k ks)
  from Cons.prems resume_not_connected(1-3) [of s k] Cons.IH [of "sendMessageAsync_resume k s"]
  show ?case by simp
qed

lemma sendMessageAsync_untracked:
  assumes "map_of (messageAsyncTracking s) key = None"
  shows "sendMessageAsync key m t s =
    (length (calls s),
     sendMessageAsync_resume
       \<lparr>k_call = length (calls s), k_key = key, k_message = m,
         k_timeout = (case t of None \<Rightarrow> 15000 | Some x \<Rightarrow> x)\<rparr>
       (s\<lparr>calls := calls s @ [None]\<rparr>))"
  using assms by (simp add: sendMessageAsync_def Let_def)

lemma sendMessageAsync_after_settled:
  assumes "map_of (messageAsyncTracking s) key = Some tr" "promise_state s (promise tr) \<noteq> Pending"
  shows "sendMessageAsync key m t s =
    (length (calls s),
     s\<lparr>calls := calls s @ [None],
       microtasks := microtasks s @
         [\<lparr>k_call = length (calls s), k_key = key, k_message = m,
           k_timeout = (case t of None \<Rightarrow> 15000 | Some x \<Rightarrow> x)\<rparr>]\<rparr>)"
proof -
  have "promise_state (s\<lparr>calls := calls s @ [None]\<rparr>) (promise tr) \<noteq> Pending"
    using assms(2) by (simp add: promise_state_def split: if_splits)
  with assms(1) show ?thesis
    by (simp add: sendMessageAsync_def Let_def await_def)
qed

subsection \<open>Timeouts\<close>




section \<open>Lemmas on the ledger\<close>
































section \<open>The claims\<close>

subsection \<open>C1: the loop guard\<close>




subsection \<open>C2: one request in flight for a key\<close>

text \<open>
  C2 says that a call for a key with a pending request publishes only when that request
  has settled, so that at most one request for a key is in flight. With three calls for
  \<open>addnode-a1\<close> the second and the third both wait for the first: while it is pending
  only message 1 is published (after the presence message of the connection); when its
  result comes in, messages 2 and 3 are published in the same round of microtasks, and
  the second and the third request are pending together. The ledger then tracks the
  third only, so that the second can end by its timeout only.
\<close>

theorem sendMessageAsync_two_in_flight:
  "published three_calls = [None, Some (Num 1)] \<and>
   returned three_calls 0 = Pending \<and>
   returned three_calls 1 = Pending \<and>
   returned three_calls 2 = Pending \<and>
   published first_settled = [None, Some (Num 1), Some (Num 2), Some (Num 3)] \<and>
   returned first_settled 0 = Fulfilled (Str ''ok'') \<and>
   returned first_settled 1 = Pending \<and>
   returned first_settled 2 = Pending \<and>
   calls first_settled = [Some 0, Some 1, Some 2] \<and>
   map_of (messageAsyncTracking first_settled) ''addnode-a1''
     = Some \<lparr>promise = 2, callbacks = True\<rparr>"
  by code_simp

subsection \<open>C3: the timeout of a request\<close>




subsection \<open>C4: removal of the records that left the snapshot\<close>

text \<open>
  C4 says that every address of the registry that the snapshot does not hold is deleted,
  also when the snapshot holds addresses of classes that are not declared. Here the
  registry holds \<open>a1\<close>, and the snapshot holds only \<open>b1\<close>, of a class that is not
  declared: the two objects have one key each, the guard of the second loop skips it,
  and \<open>a1\<close> stays.
\<close>

theorem onConfig_keeps_absent_node:
  "map fst (nodes (onConfig snapshot_a1 False example_interface)) = [''a1''] \<and>
   map_of (cfg_nodes snapshot_b1) ''a1'' = None \<and>
   map fst (nodes (onConfig snapshot_b1 False (onConfig snapshot_a1 False example_interface)))
     = [''a1'']"
  by code_simp

subsection \<open>C5: the flag for changed parameters\<close>

text \<open>What the flag tells: whether a key of the new parameters has another value, or
  none, in the old ones.\<close>

lemma setParamsDetected_flag:
  "cfg_newParamsDetected (setParamsDetected old new) =
     Some (\<exists>key \<in> set (case cfg_customParams new of Some ps \<Rightarrow> map fst ps | None \<Rightarrow> []).
             param (customParams_of old) key \<noteq> param (cfg_customParams new) key)"
proof -
  let ?nk = "case cfg_customParams new of Some ps \<Rightarrow> map fst ps | None \<Rightarrow> []"
  let ?ok = "case customParams_of old of Some ps \<Rightarrow> map fst ps | None \<Rightarrow> []"
  have in_new: "param (cfg_customParams new) key \<noteq> None" if "key \<in> set ?nk" for key
    using that by (cases "cfg_customParams new") (auto simp: param_def map_of_eq_None_iff)
  have in_old: "key \<in> set ?ok" if "param (customParams_of old) key \<noteq> None" for key
    using that by (cases "customParams_of old") (auto simp: param_def map_of_eq_None_iff)
  have "(changedParams old new \<noteq> [])
      = (\<exists>key\<in>set ?nk. param (customParams_of old) key \<noteq> param (cfg_customParams new) key)"
    unfolding changedParams_def Let_def filter_empty_conv using in_new in_old by metis
  then show ?thesis
    by (simp add: setParamsDetected_def)
qed

text \<open>
  C5 says that \<open>newParamsDetected\<close> is true exactly when the old and the new custom
  parameters differ. A key that was removed is missed: from \<open>{a: "1"}\<close> to \<open>{}\<close>
  the flag is false, though the two mappings differ at \<open>a\<close>.
\<close>

theorem setParamsDetected_misses_removed_key:
  "cfg_newParamsDetected
     (setParamsDetected (Some (params_config (Some [(''a'', ''1'')]))) (params_config (Some [])))
     = Some False
   \<and> param (cfg_customParams (params_config (Some [(''a'', ''1'')]))) ''a''
     \<noteq> param (cfg_customParams (params_config (Some []))) ''a''"
  by (simp add: setParamsDetected_def changedParams_def params_config_def customParams_of_def param_def)

subsection \<open>C6: poll periods of zero\<close>

text \<open>
  C6 says that a period of zero or unset arms no timer. A first period of zero arms the
  timer of handle 0 with a delay of 0 ms; a change from 30 to zero disarms timer 0 and
  arms timer 1 with a delay of 0 ms.
\<close>

theorem checkPollingInterval_zero_counterexample:
  "pollTimer Short example_interface = None \<and> intervals example_interface = []
   \<and> intervals (checkPollingInterval Short (Some 0) example_interface) = [(0, False, Some 0)]
   \<and> intervals (checkPollingInterval Short (Some 0) (checkPollingInterval Short (Some 30) example_interface))
       = [(1, False, Some 0)]"
  by code_simp

text \<open>
  C6, amended: a period equal to the stored one (so an unset period on the first
  assignment) changes nothing; any other period, zero and unset included, is stored,
  the timer of the class is disarmed if there is one, and a new repeating timer is armed
  for the class at the period times 1000 ms.
\<close>

theorem checkPollingInterval_arms:
  "(pollValue p s = v \<longrightarrow> checkPollingInterval p v s = s) \<and>
   (pollValue p s \<noteq> v \<longrightarrow>
      pollValue p (checkPollingInterval p v s) = v \<and>
      pollTimer p (checkPollingInterval p v s) = Some (nextTimer s) \<and>
      intervals (checkPollingInterval p v s) =
        (nextTimer s, p = Long, map_option (\<lambda>x. x * 1000) v)
          # (case pollTimer p s of None \<Rightarrow> intervals s | Some h \<Rightarrow> AList.delete h (intervals s)))"
  by (cases p)
     (auto simp: checkPollingInterval_def pollValue_def pollTimer_def set_pollValue_def
        set_pollTimer_def setInterval_def clearInterval_def log_def Let_def)

theorem checkPollingInterval_arms_witness:
  "pollValue Long example_interface \<noteq> Some 0 \<and>
   intervals (checkPollingInterval Long (Some 0) example_interface) = [(0, True, Some 0)]"
proof -
  have h: "pollValue Long example_interface \<noteq> Some 0" by code_simp
  have n: "nextTimer example_interface = 0" "pollTimer Long example_interface = None" "intervals example_interface = []" by code_simp+
  from checkPollingInterval_arms [of Long example_interface "Some 0"] h n show ?thesis by simp
qed

subsection \<open>C7: a result settles the tracked request\<close>



subsection \<open>C8: sending while not connected\<close>

text \<open>
  C8: when the interface is not connected, a call of \<^verbatim>\<open>sendMessageAsync\<close> for a
  key without a pending request returns a promise that is rejected with the error
  \<open>Polyglot not connected\<close>, and nothing is published or emitted: at once when no
  request is tracked for the key, and in the microtask in which the call goes on when the
  tracked request is settled already.
\<close>

theorem sendMessageAsync_not_connected:
  assumes "\<not> isConnected s"
  shows "(map_of (messageAsyncTracking s) key = None \<longrightarrow>
            returned (snd (sendMessageAsync key m t s)) (fst (sendMessageAsync key m t s))
              = RejectedErr (new_Error ''Polyglot not connected'') \<and>
            trace (snd (sendMessageAsync key m t s)) = trace s)
       \<and> (\<forall>tr. map_of (messageAsyncTracking s) key = Some tr \<and>
                 promise_state s (promise tr) \<noteq> Pending \<longrightarrow>
            returned (runMicrotasks (snd (sendMessageAsync key m t s)))
                (fst (sendMessageAsync key m t s))
              = RejectedErr (new_Error ''Polyglot not connected'') \<and>
            trace (runMicrotasks (snd (sendMessageAsync key m t s))) = trace s)"
proof (intro conjI impI allI)
  let ?k = "\<lparr>k_call = length (calls s), k_key = key, k_message = m,
         k_timeout = (case t of None \<Rightarrow> 15000 | Some x \<Rightarrow> x)\<rparr>"
  let ?s1 = "s\<lparr>calls := calls s @ [None]\<rparr>"
  have nc: "\<not> isConnected ?s1" using assms by (simp add: isConnected_def)
  {
    assume u: "map_of (messageAsyncTracking s) key = None"
    from resume_not_connected(4) [OF nc, of ?k]
    show "returned (snd (sendMessageAsync key m t s)) (fst (sendMessageAsync key m t s))
              = RejectedErr (new_Error ''Polyglot not connected'')"
      by (simp add: sendMessageAsync_untracked [OF u])
    from resume_not_connected(1) [OF nc, of ?k]
    show "trace (snd (sendMessageAsync key m t s)) = trace s"
      by (simp add: sendMessageAsync_untracked [OF u])
  }
  fix tr
  assume "map_of (messageAsyncTracking s) key = Some tr \<and> promise_state s (promise tr) \<noteq> Pending"
  then have eq: "sendMessageAsync key m t s =
      (length (calls s), s\<lparr>calls := calls s @ [None], microtasks := microtasks s @ [?k]\<rparr>)"
    by (simp add: sendMessageAsync_after_settled)
  let ?s2 = "s\<lparr>calls := calls s @ [None], microtasks := []\<rparr>"
  let ?s3 = "fold sendMessageAsync_resume (microtasks s) ?s2"
  have nc2: "\<not> isConnected ?s2" using assms by (simp add: isConnected_def)
  from fold_resume_not_connected [OF nc2, of "microtasks s"]
  have f: "trace ?s3 = trace s" "\<not> isConnected ?s3" "length (calls ?s3) = Suc (length (calls s))"
    by simp_all
  have run: "runMicrotasks (snd (sendMessageAsync key m t s)) = sendMessageAsync_resume ?k ?s3"
    by (simp add: eq runMicrotasks_def)
  from resume_not_connected(4) [OF f(2), of ?k] f(3)
  show "returned (runMicrotasks (snd (sendMessageAsync key m t s)))
                (fst (sendMessageAsync key m t s))
              = RejectedErr (new_Error ''Polyglot not connected'')"
    unfolding run by (simp add: eq)
  from resume_not_connected(1) [OF f(2), of ?k] f(1)
  show "trace (runMicrotasks (snd (sendMessageAsync key m t s))) = trace s"
    unfolding run by simp
qed

theorem sendMessageAsync_not_connected_witness:
  "\<not> isConnected (on_offline connected_interface) \<and>
   map_of (messageAsyncTracking (on_offline connected_interface)) ''addnode-a1'' = None \<and>
   returned (snd (sendMessageAsync ''addnode-a1'' [] None (on_offline connected_interface)))
      (fst (sendMessageAsync ''addnode-a1'' [] None (on_offline connected_interface)))
     = RejectedErr (new_Error ''Polyglot not connected'') \<and>
   trace (snd (sendMessageAsync ''addnode-a1'' [] None (on_offline connected_interface)))
     = trace (on_offline connected_interface) \<and>
   \<not> isConnected offline_after_timeout \<and>
   map_of (messageAsyncTracking offline_after_timeout) ''addnode-a1''
     = Some \<lparr>promise = 0, callbacks = True\<rparr> \<and>
   promise_state offline_after_timeout 0 \<noteq> Pending \<and>
   returned (runMicrotasks (snd (sendMessageAsync ''addnode-a1'' [] None offline_after_timeout)))
      (fst (sendMessageAsync ''addnode-a1'' [] None offline_after_timeout))
     = RejectedErr (new_Error ''Polyglot not connected'') \<and>
   trace (runMicrotasks (snd (sendMessageAsync ''addnode-a1'' [] None offline_after_timeout)))
     = trace offline_after_timeout"
proof -
  have h: "\<not> isConnected (on_offline connected_interface)" by code_simp
  have u: "map_of (messageAsyncTracking (on_offline connected_interface)) ''addnode-a1'' = None"
    by code_simp
  have h': "\<not> isConnected offline_after_timeout" by code_simp
  have u': "map_of (messageAsyncTracking offline_after_timeout) ''addnode-a1''
       = Some \<lparr>promise = 0, callbacks = True\<rparr>"
      "promise_state offline_after_timeout (promise \<lparr>promise = 0, callbacks = True\<rparr>) \<noteq> Pending"
    by code_simp+
  from sendMessageAsync_not_connected [OF h, of "''addnode-a1''" "[]" None]
       sendMessageAsync_not_connected [OF h', of "''addnode-a1''" "[]" None] h u h' u'
  show ?thesis by simp
qed

subsection \<open>C9: the guard of addNode and delNode\<close>




subsection \<open>C10: stopping and the shutting-down flag\<close>



end
